theory Spec2Isabelle
  imports Main "HOL-Library.Word"
begin

section \<open>Data model of the state transition (ethchain/state_transition.go)\<close>

type_synonym byte = "8 word"
type_synonym bytes = "byte list"

text \<open>The storage of an account: an opaque key/value table, only handed around by the
  transition.\<close>

type_synonym storage = "(bytes \<times> bytes) list"

text \<open>
  \<^verbatim>\<open>StateObject\<close>: the fields the transition reads and writes (\<^verbatim>\<open>Amount\<close>, \<^verbatim>\<open>Nonce\<close>,
  \<^verbatim>\<open>script\<close>, \<^verbatim>\<open>state\<close>, and what \<^verbatim>\<open>Address()\<close> and \<^verbatim>\<open>Init()\<close> return). \<^verbatim>\<open>Amount\<close> is a
  \<^verbatim>\<open>*big.Int\<close>, hence an unbounded integer; \<^verbatim>\<open>Nonce\<close> is compared with the \<^verbatim>\<open>uint64\<close> nonce of
  the transaction and incremented with \<^verbatim>\<open>+= 1\<close>, hence a 64-bit word.
\<close>

record StateObject =
  so_address :: bytes
  so_Amount :: int
  so_Nonce :: "64 word"
  so_script :: bytes
  so_initScript :: bytes
  so_state :: storage

text \<open>
  \<^verbatim>\<open>Transaction\<close>. \<^verbatim>\<open>tx.Sender()\<close> is derived from the signature; the model carries the
  derived address as a field.
\<close>

record Transaction =
  tx_Nonce :: "64 word"
  tx_Sender :: bytes
  tx_Recipient :: bytes
  tx_Value :: int
  tx_Gas :: int
  tx_GasPrice :: int
  tx_Data :: bytes

record Block =
  blk_Number :: int
  blk_PrevHash :: bytes
  blk_Coinbase :: bytes
  blk_Time :: int
  blk_Difficulty :: int

text \<open>
  \<^verbatim>\<open>State\<close>, the ledger store: the accounts reached through \<^verbatim>\<open>GetAccount\<close> and
  \<^verbatim>\<open>UpdateStateObject\<close>, and the map \<^verbatim>\<open>states\<close> that \<^verbatim>\<open>MakeStateObject\<close> assigns to
  (keyed by \<^verbatim>\<open>string(address)\<close>).
\<close>

record State =
  accounts :: "bytes \<rightharpoonup> StateObject"
  states :: "bytes \<rightharpoonup> storage"

text \<open>
  The errors \<^verbatim>\<open>TransitionState\<close> returns, one constructor for each \<^verbatim>\<open>return\<close> of an error in
  the source, with the values the source formats into the message:
  \<^item> \<open>NonceError is exp\<close>: \<^verbatim>\<open>NonceError(tx.Nonce, sender.Nonce)\<close> (the spec's NonceMismatch);
  \<^item> \<open>GasFundsError req has\<close>: "Insufficient funds to pre-pay gas. Req %v, has %v"
    (InsufficientGasFunds);
  \<^item> \<open>OutOfGasError\<close>: \<^verbatim>\<open>OutOfGasError()\<close>;
  \<^item> \<open>ContractCreateError tx\<close>: "ERR. Unable to create contract with transaction %v"
    (ContractCreationFailed);
  \<^item> \<open>ValueFundsError req has\<close>: "Insufficient funds to transfer value. Req %v, has %v"
    (InsufficientValueFunds);
  \<^item> \<open>InitRunError e\<close>: "Error during init script run %v" (InitializationFailed);
  \<^item> \<open>Recovered p\<close>: the error the deferred \<^verbatim>\<open>recover()\<close> makes of a panic
    (TransitionAborted).
\<close>

datatype error =
    NonceError "64 word" "64 word"
  | GasFundsError int int
  | OutOfGasError
  | ContractCreateError Transaction
  | ValueFundsError int int
  | InitRunError string
  | Recovered string

text \<open>
  \<^verbatim>\<open>StateTransition\<close>. The three cached pointers \<^verbatim>\<open>cb, rec, sen\<close> are \<open>None\<close> for \<^verbatim>\<open>nil\<close>; the
  object a pointer refers to is held in the field, and a mutation through the pointer is an
  update of the field.
\<close>

record StateTransition =
  st_coinbase :: bytes
  st_tx :: Transaction
  st_gas :: int
  st_state :: State
  st_block :: Block
  st_cb :: "StateObject option"
  st_rec :: "StateObject option"
  st_sen :: "StateObject option"

text \<open>What \<^verbatim>\<open>Eval\<close> hands to the script engine.\<close>

record RuntimeVars =
  rv_Origin :: bytes
  rv_BlockNumber :: int
  rv_PrevHash :: bytes
  rv_Coinbase :: bytes
  rv_Time :: int
  rv_Diff :: int
  rv_Value :: int

record Closure =
  cl_caller :: StateObject
  cl_object :: StateObject
  cl_Script :: bytes
  cl_State :: State
  cl_Gas :: int
  cl_Price :: int

record Vm =
  vm_state :: State
  vm_vars :: RuntimeVars

text \<open>
  The parts of the repository that the transition uses and that are not in the files at
  hand are parameters of the model:
  \<^item> \<open>GasTx\<close>, \<open>GasData\<close>: the two constants of the gas schedule;
  \<^item> \<open>CreationAddress\<close>: \<^verbatim>\<open>tx.CreationAddress()\<close>;
  \<^item> \<open>rejects\<close>: whether \<^verbatim>\<open>MakeContract\<close> declines to instantiate (returns \<^verbatim>\<open>nil\<close>);
  \<^item> \<open>Call\<close>: \<^verbatim>\<open>closure.Call(vm, tx.Data, nil)\<close>, the script engine, giving the returned
    bytes and the error (\<open>None\<close> for \<^verbatim>\<open>nil\<close>). The engine is taken as section 4.5 of the
    specification describes it, \<open>run(code, context, gasBudget, env) -> (resultCode, error?)\<close>:
    a function of what it is handed. What an engine could do to the store, the gas
    counter or the two accounts through the pointers it is handed is not part of the
    model.
\<close>

record Env =
  GasTx :: int
  GasData :: int
  CreationAddress :: "Transaction \<Rightarrow> bytes"
  rejects :: "Transaction \<Rightarrow> State \<Rightarrow> bool"
  Call :: "Closure \<Rightarrow> Vm \<Rightarrow> bytes \<Rightarrow> bytes \<times> string option"

section \<open>The collaborators\<close>

text \<open>Modelled from the spec: \<^verbatim>\<open>NewAccount\<close>, the freshly-initialized zero-value account
  that the ledger store returns for an address it does not hold (section 4.5).\<close>

definition NewAccount :: "bytes \<Rightarrow> StateObject" where
  "NewAccount addr =
     \<lparr>so_address = addr, so_Amount = 0, so_Nonce = 0, so_script = [], so_initScript = [],
      so_state = []\<rparr>"

text \<open>Modelled from the spec: \<^verbatim>\<open>State.GetAccount\<close>, the store's \<open>get(address)\<close> of section
  4.5: a key-value read that returns the account held under the address, or a
  freshly-initialized zero-value account if absent, never an error. The object returned
  is the caller's own (the store is only written by \<open>update\<close>).\<close>

definition GetAccount :: "State \<Rightarrow> bytes \<Rightarrow> StateObject" where
  "GetAccount s addr =
     (case accounts s addr of
        None \<Rightarrow> NewAccount addr
      | Some obj \<Rightarrow> obj\<lparr>so_address := addr\<rparr>)"

text \<open>Modelled from the spec: \<^verbatim>\<open>State.UpdateStateObject\<close>, the store's \<open>update(account)\<close>
  of section 4.5: the account is written under its address.\<close>

definition UpdateStateObject :: "State \<Rightarrow> StateObject \<Rightarrow> State" where
  "UpdateStateObject s obj = s\<lparr>accounts := (accounts s)(so_address obj \<mapsto> obj)\<rparr>"

text \<open>Modelled from the spec: \<^verbatim>\<open>StateObject.AddAmount\<close>, the \<open>credit(amount)\<close> of section
  4.1, which increases the balance unconditionally.\<close>

definition AddAmount :: "StateObject \<Rightarrow> int \<Rightarrow> StateObject" where
  "AddAmount obj amount = obj\<lparr>so_Amount := so_Amount obj + amount\<rparr>"

text \<open>Modelled from the spec: \<^verbatim>\<open>StateObject.SubAmount\<close>, the decrease of the balance of
  section 4.1. The source calls it as a statement and takes no result from it, and both
  callers have compared the balance with the amount before.\<close>

definition SubAmount :: "StateObject \<Rightarrow> int \<Rightarrow> StateObject" where
  "SubAmount obj amount = obj\<lparr>so_Amount := so_Amount obj - amount\<rparr>"

text \<open>Modelled from the spec: \<^verbatim>\<open>Transaction.GasValue\<close>, the price of the purchased gas,
  \<open>gasLimit \<times> gasPrice\<close> (section 4.4, step 4).\<close>

definition GasValue :: "Transaction \<Rightarrow> int" where
  "GasValue tx = tx_Gas tx * tx_GasPrice tx"

text \<open>Modelled from the spec: \<^verbatim>\<open>StateObject.BuyGas\<close>, called on the proposer's account:
  it credits the account with \<open>gasLimit \<times> gasPrice\<close> (section 4.4, step 4) and reports no
  error.\<close>

definition StateObject_BuyGas :: "StateObject \<Rightarrow> int \<Rightarrow> int \<Rightarrow> error option \<times> StateObject" where
  "StateObject_BuyGas obj gas price = (None, AddAmount obj (gas * price))"

text \<open>Modelled from the spec: \<^verbatim>\<open>Transaction.CreatesContract\<close>: the recipient is absent
  (section 3).\<close>

definition CreatesContract :: "Transaction \<Rightarrow> bool" where
  "CreatesContract tx = (tx_Recipient tx = [])"

text \<open>Modelled from the spec: \<^verbatim>\<open>MakeContract\<close>, the instantiation of section 4.4, step 8:
  a new account at the creation address with zero balance, nonce and code, whose
  initialization code is the payload of the transaction (step 10), or \<^verbatim>\<open>nil\<close> when the
  instantiation is rejected.\<close>

definition MakeContract :: "Env \<Rightarrow> Transaction \<Rightarrow> State \<Rightarrow> StateObject option" where
  "MakeContract env tx s =
     (if rejects env tx s then None
      else Some ((NewAccount (CreationAddress env tx))\<lparr>so_initScript := tx_Data tx\<rparr>))"

section \<open>The state transition\<close>

definition NewStateTransition :: "bytes \<Rightarrow> Transaction \<Rightarrow> State \<Rightarrow> Block \<Rightarrow> StateTransition" where
  "NewStateTransition coinbase tx s block =
     \<lparr>st_coinbase = coinbase, st_tx = tx, st_gas = 0, st_state = s, st_block = block,
      st_cb = None, st_rec = None, st_sen = None\<rparr>"

definition Coinbase :: "StateTransition \<Rightarrow> StateObject \<times> StateTransition" where
  "Coinbase self =
     (case st_cb self of
        Some c \<Rightarrow> (c, self)
      | None \<Rightarrow>
          (let c = GetAccount (st_state self) (st_coinbase self)
           in (c, self\<lparr>st_cb := Some c\<rparr>)))"

definition Sender :: "StateTransition \<Rightarrow> StateObject \<times> StateTransition" where
  "Sender self =
     (case st_sen self of
        Some s \<Rightarrow> (s, self)
      | None \<Rightarrow>
          (let s = GetAccount (st_state self) (tx_Sender (st_tx self))
           in (s, self\<lparr>st_sen := Some s\<rparr>)))"

definition Receiver :: "StateTransition \<Rightarrow> StateObject option \<times> StateTransition" where
  "Receiver self =
     (if CreatesContract (st_tx self) then (None, self)
      else case st_rec self of
        Some r \<Rightarrow> (Some r, self)
      | None \<Rightarrow>
          (let r = GetAccount (st_state self) (tx_Recipient (st_tx self))
           in (Some r, self\<lparr>st_rec := Some r\<rparr>)))"

text \<open>\<^verbatim>\<open>MakeStateObject\<close> gives the contract and the store after the assignment to
  \<^verbatim>\<open>state.states\<close>.\<close>

definition MakeStateObject :: "Env \<Rightarrow> State \<Rightarrow> Transaction \<Rightarrow> StateObject option \<times> State" where
  "MakeStateObject env s tx =
     (case MakeContract env tx s of
        Some contract \<Rightarrow>
          (Some contract, s\<lparr>states := (states s)(CreationAddress env tx \<mapsto> so_state contract)\<rparr>)
      | None \<Rightarrow> (None, s))"

definition UseGas :: "int \<Rightarrow> StateTransition \<Rightarrow> error option \<times> StateTransition" where
  "UseGas amount self =
     (if st_gas self < amount then (Some OutOfGasError, self)
      else (None, self\<lparr>st_gas := st_gas self - amount\<rparr>))"

definition AddGas :: "int \<Rightarrow> StateTransition \<Rightarrow> StateTransition" where
  "AddGas amount self = self\<lparr>st_gas := st_gas self + amount\<rparr>"

definition BuyGas :: "StateTransition \<Rightarrow> error option \<times> StateTransition" where
  "BuyGas self =
     (let (sender, self1) = Sender self;
          tx = st_tx self1
      in if so_Amount sender < GasValue tx
         then (Some (GasFundsError (GasValue tx) (tx_Value tx)), self1)
         else
           (let (coinbase, self2) = Coinbase self1
            in case StateObject_BuyGas coinbase (tx_Gas tx) (tx_GasPrice tx) of
                 (Some err, coinbase') \<Rightarrow> (Some err, self2\<lparr>st_cb := Some coinbase'\<rparr>)
               | (None, coinbase') \<Rightarrow>
                   (let self3 = self2\<lparr>st_cb := Some coinbase',
                                      st_state := UpdateStateObject (st_state self2) coinbase'\<rparr>;
                        self4 = AddGas (tx_Gas tx) self3
                    in (None, self4\<lparr>st_sen := Some (SubAmount sender (GasValue tx))\<rparr>))))"

text \<open>
  \<^verbatim>\<open>transferValue\<close> takes the two objects its pointer arguments refer to and gives them
  back as it leaves them. The arguments of the \<^verbatim>\<open>Debugf\<close> call are evaluated after the two
  balances have changed: \<^verbatim>\<open>Address()[:4]\<close> panics on an address of fewer than four bytes
  (the result is \<open>Inl\<close> of the panic; an address is taken to have no spare capacity).
\<close>

definition transferValue ::
  "StateTransition \<Rightarrow> StateObject \<Rightarrow> StateObject \<Rightarrow> (string + error option) \<times> StateObject \<times> StateObject"
where
  "transferValue self sender receiver =
     (if so_Amount sender < tx_Value (st_tx self)
      then (Inr (Some (ValueFundsError (tx_Value (st_tx self)) (so_Amount sender))), sender, receiver)
      else
        (let sender' = SubAmount sender (tx_Value (st_tx self));
             receiver' = AddAmount receiver (tx_Value (st_tx self))
         in if length (so_address sender') < 4 \<or> length (so_address receiver') < 4
            then (Inl ''slice bounds out of range'', sender', receiver')
            else (Inr None, sender', receiver')))"

definition NewClosure ::
  "StateObject \<Rightarrow> StateObject \<Rightarrow> bytes \<Rightarrow> State \<Rightarrow> int \<Rightarrow> int \<Rightarrow> Closure" where
  "NewClosure caller object script s gas price =
     \<lparr>cl_caller = caller, cl_object = object, cl_Script = script, cl_State = s,
      cl_Gas = gas, cl_Price = price\<rparr>"

definition NewVm :: "State \<Rightarrow> RuntimeVars \<Rightarrow> Vm" where
  "NewVm s vars = \<lparr>vm_state = s, vm_vars = vars\<rparr>"

definition Eval ::
  "Env \<Rightarrow> StateTransition \<Rightarrow> bytes \<Rightarrow> StateObject \<Rightarrow> (bytes \<times> string option) \<times> StateTransition"
where
  "Eval env self script context =
     (let tx = st_tx self;
          block = st_block self;
          (initiator, self1) = Sender self;
          s = st_state self1;
          closure = NewClosure initiator context script s (st_gas self1) (tx_GasPrice tx);
          vm = NewVm s
                 \<lparr>rv_Origin = so_address initiator,
                  rv_BlockNumber = blk_Number block,
                  rv_PrevHash = blk_PrevHash block,
                  rv_Coinbase = blk_Coinbase block,
                  rv_Time = blk_Time block,
                  rv_Diff = blk_Difficulty block,
                  rv_Value = tx_Value tx\<rparr>
      in (Call env closure vm (tx_Data tx), self1))"

text \<open>The local \<^verbatim>\<open>receiver\<close> of \<^verbatim>\<open>TransitionState\<close> is the pointer \<^verbatim>\<open>self.rec\<close> unless the
  transaction creates a contract (then \<^verbatim>\<open>self.rec\<close> stays \<^verbatim>\<open>nil\<close>).\<close>

definition set_receiver :: "StateTransition \<Rightarrow> StateObject \<Rightarrow> StateTransition" where
  "set_receiver self receiver =
     (if CreatesContract (st_tx self) then self else self\<lparr>st_rec := Some receiver\<rparr>)"

text \<open>
  \<^verbatim>\<open>TransitionState\<close> gives the returned error (\<open>None\<close> for \<^verbatim>\<open>nil\<close>) and the session as the call
  leaves it; the ledger store after the call is \<open>st_state\<close> of that session. The local
  \<^verbatim>\<open>sender\<close> is the pointer \<^verbatim>\<open>self.sen\<close>, and the local \<^verbatim>\<open>receiver\<close> is \<^verbatim>\<open>self.rec\<close> unless the
  transaction creates a contract, so what the steps do to the two objects is written back
  to these fields.
\<close>

definition TransitionState :: "Env \<Rightarrow> StateTransition \<Rightarrow> error option \<times> StateTransition" where
  "TransitionState env self =
     (let tx = st_tx self;
          (sender, self1) = Sender self
      in if so_Nonce sender \<noteq> tx_Nonce tx
         then (Some (NonceError (tx_Nonce tx) (so_Nonce sender)), self1)
         else
           (let self2 = self1\<lparr>st_sen := Some (sender\<lparr>so_Nonce := so_Nonce sender + 1\<rparr>)\<rparr>
            in case BuyGas self2 of
                 (Some err, self3) \<Rightarrow> (Some err, self3)
               | (None, self3) \<Rightarrow>
            (let (receiver, self4) = Receiver self3
             in case UseGas (GasTx env) self4 of
                  (Some err, self5) \<Rightarrow> (Some err, self5)
                | (None, self5) \<Rightarrow>
            (let dataPrice = int (length (tx_Data tx)) * GasData env
             in case UseGas dataPrice self5 of
                  (Some err, self6) \<Rightarrow> (Some err, self6)
                | (None, self6) \<Rightarrow>
            (let (receiver', self7) =
                   (case receiver of
                      Some r \<Rightarrow> (Some r, self6)
                    | None \<Rightarrow>
                        (let (c, s') = MakeStateObject env (st_state self6) tx
                         in (c, self6\<lparr>st_state := s'\<rparr>)))
             in case receiver' of
                  None \<Rightarrow> (Some (ContractCreateError tx), self7)
                | Some receiver0 \<Rightarrow>
            (let (sender0, self8) = Sender self7
             in case transferValue self8 sender0 receiver0 of
                  (Inl p, sender1, receiver1) \<Rightarrow>
                    (Some (Recovered p), set_receiver (self8\<lparr>st_sen := Some sender1\<rparr>) receiver1)
                | (Inr (Some err), sender1, receiver1) \<Rightarrow>
                    (Some err, set_receiver (self8\<lparr>st_sen := Some sender1\<rparr>) receiver1)
                | (Inr None, sender1, receiver1) \<Rightarrow>
            (let self9 = set_receiver (self8\<lparr>st_sen := Some sender1\<rparr>) receiver1
             in if CreatesContract tx
                then
                  (case Eval env self9 (so_initScript receiver1) receiver1 of
                     ((code, Some e), self10) \<Rightarrow> (Some (InitRunError e), self10)
                   | ((code, None), self10) \<Rightarrow>
                       (let receiver2 = receiver1\<lparr>so_script := code\<rparr>
                        in (None,
                            self10\<lparr>st_state :=
                              UpdateStateObject (UpdateStateObject (st_state self10) sender1)
                                receiver2\<rparr>)))
                else
                  (None,
                   self9\<lparr>st_state :=
                     UpdateStateObject (UpdateStateObject (st_state self9) sender1)
                       receiver1\<rparr>))))))))"

section \<open>Reading a message from the wire (ethwire/messaging.go)\<close>

definition MagicToken :: bytes where
  "MagicToken = [34, 64, 8, 145]"

text \<open>\<^verbatim>\<open>Msg\<close>, over the type \<open>'v\<close> of decoded values (\<^verbatim>\<open>*ethutil.Value\<close>).\<close>

record 'v Msg =
  msg_Type :: byte
  msg_Data :: 'v

text \<open>
  The errors \<^verbatim>\<open>ReadMessage\<close> returns: "Invalid message", "MagicToken mismatch. Received %v"
  and "message length %d, expected %d" with its two arguments, \<^verbatim>\<open>len(data[8:])\<close> and
  \<^verbatim>\<open>messageLength\<close>.
\<close>

datatype wire_error =
    InvalidMessage
  | MagicTokenMismatch bytes
  | MessageLengthError nat "64 word"

text \<open>A run-time panic of the Go program.\<close>

datatype panic = SliceBoundsOutOfRange

text \<open>
  The decoder of \<^verbatim>\<open>ethutil\<close> is not in the files at hand and is a parameter:
  \<open>NewValueFromBytes\<close>, \<open>Get0Uint\<close> for \<^verbatim>\<open>decoder.Get(0).Uint()\<close> and \<open>SliceFrom1\<close> for
  \<^verbatim>\<open>decoder.SliceFrom(1)\<close>.
\<close>

record 'v Decoder =
  NewValueFromBytes :: "bytes \<Rightarrow> 'v"
  Get0Uint :: "'v \<Rightarrow> 64 word"
  SliceFrom1 :: "'v \<Rightarrow> 'v"

text \<open>Modelled from the spec: \<^verbatim>\<open>ethutil.BytesToNumber\<close> is not in the files at hand. The
  four bytes after the magic token are the declared length of the message, written by
  \<^verbatim>\<open>NumberToBytes(uint32(len(encoded)), 32)\<close> in \<^verbatim>\<open>Write\<close>; they are read as an unsigned
  number, most significant byte first, into a \<^verbatim>\<open>uint64\<close>.\<close>

definition BytesToNumber :: "bytes \<Rightarrow> 64 word" where
  "BytesToNumber b = foldl (\<lambda>n x. n * 256 + ucast x) 0 b"

text \<open>
  \<^verbatim>\<open>ReadMessage\<close> gives \<open>Inr (msg, remaining, done, err)\<close> when it returns and \<open>Inl\<close> of the
  panic when it does not. A slice expression \<^verbatim>\<open>data[low:]\<close> panics unless
  \<^verbatim>\<open>low <= len(data)\<close>; the slices \<^verbatim>\<open>data[:4]\<close>, \<^verbatim>\<open>data[4:8]\<close> and \<^verbatim>\<open>data[8:]\<close> are
  taken of more than eight bytes. \<^verbatim>\<open>8+messageLength\<close> is \<^verbatim>\<open>uint64\<close> arithmetic,
  \<^verbatim>\<open>int(messageLength)\<close> the signed reading of the same 64 bits, \<^verbatim>\<open>MsgType(t)\<close> the low byte.
\<close>

definition ReadMessage ::
  "'v Decoder \<Rightarrow> bytes \<Rightarrow> panic + ('v Msg option \<times> bytes \<times> bool \<times> wire_error option)"
where
  "ReadMessage dec data =
     (if length data = 0 then Inr (None, [], True, None)
      else if length data \<le> 8 then Inr (None, [], False, Some InvalidMessage)
      else if MagicToken \<noteq> take 4 data
        then Inr (None, [], False, Some (MagicTokenMismatch (take 4 data)))
      else
        (let messageLength = BytesToNumber (take 4 (drop 4 data))
         in if unat (8 + messageLength) > length data then Inl SliceBoundsOutOfRange
            else
              (let remaining = drop (unat (8 + messageLength)) data
               in if sint messageLength > int (length (drop 8 data))
                  then Inr (None, [], False,
                            Some (MessageLengthError (length (drop 8 data)) messageLength))
                  else
                    (let message = take (unat messageLength) (drop 8 data);
                         decoder = NewValueFromBytes dec message;
                         t = Get0Uint dec decoder;
                         d = SliceFrom1 dec decoder
                     in Inr (Some \<lparr>msg_Type = ucast t, msg_Data = d\<rparr>, remaining, False, None)))))"

text \<open>The method \<^verbatim>\<open>Connection.readMessage\<close> has the same body.\<close>

definition readMessage ::
  "'v Decoder \<Rightarrow> bytes \<Rightarrow> panic + ('v Msg option \<times> bytes \<times> bool \<times> wire_error option)"
where
  "readMessage dec data =
     (if length data = 0 then Inr (None, [], True, None)
      else if length data \<le> 8 then Inr (None, [], False, Some InvalidMessage)
      else if MagicToken \<noteq> take 4 data
        then Inr (None, [], False, Some (MagicTokenMismatch (take 4 data)))
      else
        (let messageLength = BytesToNumber (take 4 (drop 4 data))
         in if unat (8 + messageLength) > length data then Inl SliceBoundsOutOfRange
            else
              (let remaining = drop (unat (8 + messageLength)) data
               in if sint messageLength > int (length (drop 8 data))
                  then Inr (None, [], False,
                            Some (MessageLengthError (length (drop 8 data)) messageLength))
                  else
                    (let message = take (unat messageLength) (drop 8 data);
                         decoder = NewValueFromBytes dec message;
                         t = Get0Uint dec decoder;
                         d = SliceFrom1 dec decoder
                     in Inr (Some \<lparr>msg_Type = ucast t, msg_Data = d\<rparr>, remaining, False, None)))))"

section \<open>Notation for the results, and the inputs of the examples\<close>

text \<open>One application of the transition: a new session on the store \<open>s\<close>, run once.\<close>

abbreviation run ::
  "Env \<Rightarrow> bytes \<Rightarrow> Transaction \<Rightarrow> State \<Rightarrow> Block \<Rightarrow> error option \<times> StateTransition" where
  "run env cb tx s blk \<equiv> TransitionState env (NewStateTransition cb tx s blk)"

text \<open>The store the call leaves, and the account it holds for an address.\<close>

abbreviation store_after :: "Env \<Rightarrow> bytes \<Rightarrow> Transaction \<Rightarrow> State \<Rightarrow> Block \<Rightarrow> State" where
  "store_after env cb tx s blk \<equiv> st_state (snd (run env cb tx s blk))"

abbreviation dataPrice :: "Env \<Rightarrow> Transaction \<Rightarrow> int" where
  "dataPrice env tx \<equiv> int (length (tx_Data tx)) * GasData env"

text \<open>The proposer's account with the fee credit, and the store with that account written.\<close>

abbreviation credited :: "State \<Rightarrow> bytes \<Rightarrow> Transaction \<Rightarrow> StateObject" where
  "credited s cb tx \<equiv> AddAmount (GetAccount s cb) (GasValue tx)"

abbreviation paid :: "State \<Rightarrow> bytes \<Rightarrow> Transaction \<Rightarrow> State" where
  "paid s cb tx \<equiv> UpdateStateObject s (credited s cb tx)"

text \<open>The address of the receiver: the recipient, or the creation address.\<close>

abbreviation receiver_address :: "Env \<Rightarrow> Transaction \<Rightarrow> bytes" where
  "receiver_address env tx \<equiv>
     (if CreatesContract tx then CreationAddress env tx else tx_Recipient tx)"

text \<open>The sender's object once the nonce is advanced, the gas bought and the value
  transferred.\<close>

abbreviation sender_done :: "State \<Rightarrow> Transaction \<Rightarrow> StateObject" where
  "sender_done s tx \<equiv>
     (GetAccount s (tx_Sender tx))
       \<lparr>so_Nonce := tx_Nonce tx + 1,
        so_Amount := so_Amount (GetAccount s (tx_Sender tx)) - GasValue tx - tx_Value tx\<rparr>"

text \<open>The steps up to the two gas charges pass: the nonce matches, the sender can pay for
  the gas, and the gas bought covers the base charge and then the data charge.\<close>

abbreviation charged :: "Env \<Rightarrow> Transaction \<Rightarrow> State \<Rightarrow> bool" where
  "charged env tx s \<equiv>
     so_Nonce (GetAccount s (tx_Sender tx)) = tx_Nonce tx \<and>
     GasValue tx \<le> so_Amount (GetAccount s (tx_Sender tx)) \<and>
     GasTx env \<le> tx_Gas tx \<and>
     dataPrice env tx \<le> tx_Gas tx - GasTx env"

text \<open>In a contract creation: the store once the contract's storage is registered, the
  new contract holding the transferred value, and the invocation of the script engine on
  them.\<close>

abbreviation registered :: "Env \<Rightarrow> bytes \<Rightarrow> Transaction \<Rightarrow> State \<Rightarrow> State" where
  "registered env cb tx s \<equiv>
     (paid s cb tx)\<lparr>states := (states (paid s cb tx))(CreationAddress env tx \<mapsto> [])\<rparr>"

abbreviation contract_funded :: "Env \<Rightarrow> Transaction \<Rightarrow> StateObject" where
  "contract_funded env tx \<equiv>
     (NewAccount (CreationAddress env tx))\<lparr>so_Amount := tx_Value tx, so_initScript := tx_Data tx\<rparr>"

abbreviation init_run :: "Env \<Rightarrow> bytes \<Rightarrow> Transaction \<Rightarrow> State \<Rightarrow> Block \<Rightarrow> bytes \<times> string option" where
  "init_run env cb tx s blk \<equiv>
     Call env
       \<lparr>cl_caller = sender_done s tx, cl_object = contract_funded env tx,
        cl_Script = tx_Data tx, cl_State = registered env cb tx s,
        cl_Gas = tx_Gas tx - GasTx env - dataPrice env tx, cl_Price = tx_GasPrice tx\<rparr>
       \<lparr>vm_state = registered env cb tx s,
        vm_vars =
          \<lparr>rv_Origin = tx_Sender tx, rv_BlockNumber = blk_Number blk,
           rv_PrevHash = blk_PrevHash blk, rv_Coinbase = blk_Coinbase blk,
           rv_Time = blk_Time blk, rv_Diff = blk_Difficulty blk, rv_Value = tx_Value tx\<rparr>\<rparr>
       (tx_Data tx)"

text \<open>
  The inputs of the examples: 20-byte addresses, a store that holds the balance \<open>b\<close> for
  the first and 7 for the second, a gas schedule with base cost 5 and cost 1 for each byte of
  the payload, a creation address, and a script engine that returns the script it is given
  and fails on an empty payload.
\<close>

definition addr_A :: bytes where "addr_A = replicate 20 1"
definition addr_B :: bytes where "addr_B = replicate 20 2"
definition addr_M :: bytes where "addr_M = replicate 20 3"
definition addr_C :: bytes where "addr_C = replicate 20 204"

definition ex_state :: "int \<Rightarrow> State" where
  "ex_state b =
     \<lparr>accounts = [addr_A \<mapsto> (NewAccount addr_A)\<lparr>so_Amount := b\<rparr>,
                  addr_B \<mapsto> (NewAccount addr_B)\<lparr>so_Amount := 7\<rparr>],
      states = Map.empty\<rparr>"

definition ex_env :: Env where
  "ex_env =
     \<lparr>GasTx = 5, GasData = 1, CreationAddress = (\<lambda>tx. addr_C), rejects = (\<lambda>tx s. False),
      Call = (\<lambda>c v d. (cl_Script c, if d = [] then Some ''bad'' else None))\<rparr>"

definition ex_block :: Block where
  "ex_block =
     \<lparr>blk_Number = 1, blk_PrevHash = [], blk_Coinbase = addr_M, blk_Time = 0,
      blk_Difficulty = 1\<rparr>"

text \<open>A transaction of \<open>addr_A\<close> with gas price 1.\<close>

definition ex_tx :: "64 word \<Rightarrow> bytes \<Rightarrow> int \<Rightarrow> int \<Rightarrow> bytes \<Rightarrow> Transaction" where
  "ex_tx n rcpt v g d =
     \<lparr>tx_Nonce = n, tx_Sender = addr_A, tx_Recipient = rcpt, tx_Value = v, tx_Gas = g,
      tx_GasPrice = 1, tx_Data = d\<rparr>"

text \<open>A decoder for the examples: the value is the bytes themselves, its first item the
  first byte, the rest the bytes after it.\<close>

definition ex_decoder :: "bytes Decoder" where
  "ex_decoder =
     \<lparr>NewValueFromBytes = (\<lambda>b. b),
      Get0Uint = (\<lambda>v. case v of [] \<Rightarrow> 0 | x # xs \<Rightarrow> ucast x),
      SliceFrom1 = tl\<rparr>"

section \<open>The paths of the transition\<close>

lemmas step_defs =
  Sender_def Coinbase_def Receiver_def BuyGas_def UseGas_def AddGas_def
  StateObject_BuyGas_def GasValue_def NewStateTransition_def MakeStateObject_def
  MakeContract_def transferValue_def Eval_def set_receiver_def NewClosure_def NewVm_def
  SubAmount_def

lemma GetAccount_address [simp]: "so_address (GetAccount s a) = a"
  by (simp add: GetAccount_def NewAccount_def split: option.splits)

lemma NewAccount_address [simp]: "so_address (NewAccount a) = a"
  by (simp add: NewAccount_def)

lemma GetAccount_update:
  "GetAccount (UpdateStateObject s obj) a =
     (if a = so_address obj then obj else GetAccount s a)"
  by (simp add: GetAccount_def UpdateStateObject_def)

lemma path_nonce:
  assumes "so_Nonce (GetAccount s (tx_Sender tx)) \<noteq> tx_Nonce tx"
  shows "fst (run env cb tx s blk) =
           Some (NonceError (tx_Nonce tx) (so_Nonce (GetAccount s (tx_Sender tx))))"
    and "store_after env cb tx s blk = s"
    and "st_gas (snd (run env cb tx s blk)) = 0"
    and "st_sen (snd (run env cb tx s blk)) = Some (GetAccount s (tx_Sender tx))"
  using assms by (simp_all add: TransitionState_def step_defs Let_def)

lemma path_gas_funds:
  assumes "so_Nonce (GetAccount s (tx_Sender tx)) = tx_Nonce tx"
    and "so_Amount (GetAccount s (tx_Sender tx)) < GasValue tx"
  shows "fst (run env cb tx s blk) = Some (GasFundsError (GasValue tx) (tx_Value tx))"
    and "store_after env cb tx s blk = s"
    and "st_gas (snd (run env cb tx s blk)) = 0"
  using assms by (simp_all add: TransitionState_def step_defs Let_def)

lemma path_base_gas:
  assumes "so_Nonce (GetAccount s (tx_Sender tx)) = tx_Nonce tx"
    and "GasValue tx \<le> so_Amount (GetAccount s (tx_Sender tx))"
    and "tx_Gas tx < GasTx env"
  shows "fst (run env cb tx s blk) = Some OutOfGasError"
    and "store_after env cb tx s blk = paid s cb tx"
    and "st_gas (snd (run env cb tx s blk)) = tx_Gas tx"
  using assms by (simp_all add: TransitionState_def step_defs Let_def split: prod.splits)

lemma path_data_gas:
  assumes "so_Nonce (GetAccount s (tx_Sender tx)) = tx_Nonce tx"
    and "GasValue tx \<le> so_Amount (GetAccount s (tx_Sender tx))"
    and "GasTx env \<le> tx_Gas tx"
    and "tx_Gas tx - GasTx env < dataPrice env tx"
  shows "fst (run env cb tx s blk) = Some OutOfGasError"
    and "store_after env cb tx s blk = paid s cb tx"
    and "st_gas (snd (run env cb tx s blk)) = tx_Gas tx - GasTx env"
  using assms by (simp_all add: TransitionState_def step_defs Let_def split: prod.splits)

lemma path_call_value:
  assumes "charged env tx s" and "\<not> CreatesContract tx"
    and "so_Amount (GetAccount s (tx_Sender tx)) - GasValue tx < tx_Value tx"
  shows "fst (run env cb tx s blk) =
           Some (ValueFundsError (tx_Value tx)
                  (so_Amount (GetAccount s (tx_Sender tx)) - GasValue tx))"
    and "store_after env cb tx s blk = paid s cb tx"
    and "st_gas (snd (run env cb tx s blk)) = tx_Gas tx - GasTx env - dataPrice env tx"
  using assms by (simp_all add: TransitionState_def step_defs Let_def split: prod.splits)

lemma path_call_panic:
  assumes "charged env tx s" and "\<not> CreatesContract tx"
    and "tx_Value tx \<le> so_Amount (GetAccount s (tx_Sender tx)) - GasValue tx"
    and "length (tx_Sender tx) < 4 \<or> length (tx_Recipient tx) < 4"
  shows "fst (run env cb tx s blk) = Some (Recovered ''slice bounds out of range'')"
    and "store_after env cb tx s blk = paid s cb tx"
    and "st_gas (snd (run env cb tx s blk)) = tx_Gas tx - GasTx env - dataPrice env tx"
  using assms
  by (simp_all add: TransitionState_def step_defs AddAmount_def Let_def split: prod.splits)

lemma path_call_ok:
  assumes "charged env tx s" and "\<not> CreatesContract tx"
    and "tx_Value tx \<le> so_Amount (GetAccount s (tx_Sender tx)) - GasValue tx"
    and "4 \<le> length (tx_Sender tx)" and "4 \<le> length (tx_Recipient tx)"
  shows "fst (run env cb tx s blk) = None"
    and "store_after env cb tx s blk =
           UpdateStateObject (UpdateStateObject (paid s cb tx) (sender_done s tx))
             (AddAmount (GetAccount (paid s cb tx) (tx_Recipient tx)) (tx_Value tx))"
    and "st_gas (snd (run env cb tx s blk)) = tx_Gas tx - GasTx env - dataPrice env tx"
    and "st_sen (snd (run env cb tx s blk)) = Some (sender_done s tx)"
  using assms
  by (simp_all add: TransitionState_def step_defs AddAmount_def Let_def split: prod.splits)

lemma path_create_rejected:
  assumes "charged env tx s" and "CreatesContract tx"
    and "rejects env tx (paid s cb tx)"
  shows "fst (run env cb tx s blk) = Some (ContractCreateError tx)"
    and "store_after env cb tx s blk = paid s cb tx"
    and "st_gas (snd (run env cb tx s blk)) = tx_Gas tx - GasTx env - dataPrice env tx"
  using assms by (simp_all add: TransitionState_def step_defs Let_def split: prod.splits)

lemma path_create_value:
  assumes "charged env tx s" and "CreatesContract tx"
    and "\<not> rejects env tx (paid s cb tx)"
    and "so_Amount (GetAccount s (tx_Sender tx)) - GasValue tx < tx_Value tx"
  shows "fst (run env cb tx s blk) =
           Some (ValueFundsError (tx_Value tx)
                  (so_Amount (GetAccount s (tx_Sender tx)) - GasValue tx))"
    and "store_after env cb tx s blk = registered env cb tx s"
    and "st_gas (snd (run env cb tx s blk)) = tx_Gas tx - GasTx env - dataPrice env tx"
  using assms by (simp_all add: TransitionState_def step_defs NewAccount_def Let_def split: prod.splits)

lemma path_create_panic:
  assumes "charged env tx s" and "CreatesContract tx"
    and "\<not> rejects env tx (paid s cb tx)"
    and "tx_Value tx \<le> so_Amount (GetAccount s (tx_Sender tx)) - GasValue tx"
    and "length (tx_Sender tx) < 4 \<or> length (CreationAddress env tx) < 4"
  shows "fst (run env cb tx s blk) = Some (Recovered ''slice bounds out of range'')"
    and "store_after env cb tx s blk = registered env cb tx s"
    and "st_gas (snd (run env cb tx s blk)) = tx_Gas tx - GasTx env - dataPrice env tx"
  using assms
  by (simp_all add: TransitionState_def step_defs NewAccount_def AddAmount_def Let_def split: prod.splits)

lemma path_create_init_failed:
  assumes "charged env tx s" and "CreatesContract tx"
    and "\<not> rejects env tx (paid s cb tx)"
    and "tx_Value tx \<le> so_Amount (GetAccount s (tx_Sender tx)) - GasValue tx"
    and "4 \<le> length (tx_Sender tx)" and "4 \<le> length (CreationAddress env tx)"
    and "snd (init_run env cb tx s blk) = Some e"
  shows "fst (run env cb tx s blk) = Some (InitRunError e)"
    and "store_after env cb tx s blk = registered env cb tx s"
    and "st_gas (snd (run env cb tx s blk)) = tx_Gas tx - GasTx env - dataPrice env tx"
  using assms
  by (auto simp add: TransitionState_def step_defs NewAccount_def AddAmount_def Let_def split: prod.splits option.splits)

lemma path_create_ok:
  assumes "charged env tx s" and "CreatesContract tx"
    and "\<not> rejects env tx (paid s cb tx)"
    and "tx_Value tx \<le> so_Amount (GetAccount s (tx_Sender tx)) - GasValue tx"
    and "4 \<le> length (tx_Sender tx)" and "4 \<le> length (CreationAddress env tx)"
    and "snd (init_run env cb tx s blk) = None"
  shows "fst (run env cb tx s blk) = None"
    and "store_after env cb tx s blk =
           UpdateStateObject (UpdateStateObject (registered env cb tx s) (sender_done s tx))
             ((contract_funded env tx)\<lparr>so_script := fst (init_run env cb tx s blk)\<rparr>)"
    and "st_gas (snd (run env cb tx s blk)) = tx_Gas tx - GasTx env - dataPrice env tx"
    and "st_sen (snd (run env cb tx s blk)) = Some (sender_done s tx)"
  using assms
  by (auto simp add: TransitionState_def step_defs NewAccount_def AddAmount_def Let_def split: prod.splits option.splits)

lemmas paths =
  path_nonce path_gas_funds path_base_gas path_data_gas path_call_value path_call_panic
  path_call_ok path_create_rejected path_create_value path_create_panic
  path_create_init_failed path_create_ok

text \<open>Every run takes one of the twelve paths.\<close>

lemma run_cases:
  assumes "so_Nonce (GetAccount s (tx_Sender tx)) \<noteq> tx_Nonce tx \<Longrightarrow> P"
    and "\<lbrakk>so_Nonce (GetAccount s (tx_Sender tx)) = tx_Nonce tx;
          so_Amount (GetAccount s (tx_Sender tx)) < GasValue tx\<rbrakk> \<Longrightarrow> P"
    and "\<lbrakk>so_Nonce (GetAccount s (tx_Sender tx)) = tx_Nonce tx;
          GasValue tx \<le> so_Amount (GetAccount s (tx_Sender tx));
          tx_Gas tx < GasTx env\<rbrakk> \<Longrightarrow> P"
    and "\<lbrakk>so_Nonce (GetAccount s (tx_Sender tx)) = tx_Nonce tx;
          GasValue tx \<le> so_Amount (GetAccount s (tx_Sender tx));
          GasTx env \<le> tx_Gas tx; tx_Gas tx - GasTx env < dataPrice env tx\<rbrakk> \<Longrightarrow> P"
    and "\<lbrakk>charged env tx s; \<not> CreatesContract tx;
          so_Amount (GetAccount s (tx_Sender tx)) - GasValue tx < tx_Value tx\<rbrakk> \<Longrightarrow> P"
    and "\<lbrakk>charged env tx s; \<not> CreatesContract tx;
          tx_Value tx \<le> so_Amount (GetAccount s (tx_Sender tx)) - GasValue tx;
          length (tx_Sender tx) < 4 \<or> length (tx_Recipient tx) < 4\<rbrakk> \<Longrightarrow> P"
    and "\<lbrakk>charged env tx s; \<not> CreatesContract tx;
          tx_Value tx \<le> so_Amount (GetAccount s (tx_Sender tx)) - GasValue tx;
          4 \<le> length (tx_Sender tx); 4 \<le> length (tx_Recipient tx)\<rbrakk> \<Longrightarrow> P"
    and "\<lbrakk>charged env tx s; CreatesContract tx; rejects env tx (paid s cb tx)\<rbrakk> \<Longrightarrow> P"
    and "\<lbrakk>charged env tx s; CreatesContract tx; \<not> rejects env tx (paid s cb tx);
          so_Amount (GetAccount s (tx_Sender tx)) - GasValue tx < tx_Value tx\<rbrakk> \<Longrightarrow> P"
    and "\<lbrakk>charged env tx s; CreatesContract tx; \<not> rejects env tx (paid s cb tx);
          tx_Value tx \<le> so_Amount (GetAccount s (tx_Sender tx)) - GasValue tx;
          length (tx_Sender tx) < 4 \<or> length (CreationAddress env tx) < 4\<rbrakk> \<Longrightarrow> P"
    and "\<And>e. \<lbrakk>charged env tx s; CreatesContract tx; \<not> rejects env tx (paid s cb tx);
          tx_Value tx \<le> so_Amount (GetAccount s (tx_Sender tx)) - GasValue tx;
          4 \<le> length (tx_Sender tx); 4 \<le> length (CreationAddress env tx);
          snd (init_run env cb tx s blk) = Some e\<rbrakk> \<Longrightarrow> P"
    and "\<lbrakk>charged env tx s; CreatesContract tx; \<not> rejects env tx (paid s cb tx);
          tx_Value tx \<le> so_Amount (GetAccount s (tx_Sender tx)) - GasValue tx;
          4 \<le> length (tx_Sender tx); 4 \<le> length (CreationAddress env tx);
          snd (init_run env cb tx s blk) = None\<rbrakk> \<Longrightarrow> P"
  shows P
proof (cases "charged env tx s")
  case False
  then show ?thesis
    using assms(1-4) by (meson not_le_imp_less)
next
  case True
  show ?thesis
  proof (cases "CreatesContract tx")
    case False
    with True show ?thesis
      using assms(5-7) by (meson not_le_imp_less)
  next
    case cc: True
    show ?thesis
    proof (cases "snd (init_run env cb tx s blk)")
      case None
      with True cc show ?thesis
        using assms(8-10) assms(12) by (meson not_le_imp_less)
    next
      case (Some e)
      with True cc show ?thesis
        using assms(8-10) assms(11) [of e] by (meson not_le_imp_less)
    qed
  qed
qed

section \<open>The claims\<close>

lemmas ex_defs =
  ex_tx_def ex_state_def ex_env_def ex_block_def addr_A_def addr_B_def addr_M_def addr_C_def
  GetAccount_def NewAccount_def CreatesContract_def GasValue_def UpdateStateObject_def
  AddAmount_def

lemma accounts_paid: "accounts (paid s cb tx) = (accounts s)(cb \<mapsto> credited s cb tx)"
  by (simp add: UpdateStateObject_def AddAmount_def)

lemma states_paid: "states (paid s cb tx) = states s"
  by (simp add: UpdateStateObject_def)

text \<open>The gas purchase writes the proposer's credited account to the store itself.\<close>

lemma BuyGas_writes_through:
  assumes "fst (BuyGas self) = None"
  shows "st_state (snd (BuyGas self)) =
           UpdateStateObject (st_state self)
             (AddAmount (fst (Coinbase self)) (GasValue (st_tx self)))"
  using assms
  by (simp add: BuyGas_def Sender_def Coinbase_def StateObject_BuyGas_def AddGas_def
        GasValue_def Let_def split: option.splits if_splits)

text \<open>
  C1 (as amended). When the gas purchase succeeds (the nonce matches and the sender can
  pay \<open>gasLimit \<times> gasPrice\<close>) and the transition fails later, whatever the failure, the
  accounts of the store are those before the call with the proposer's account credited
  with \<open>gasLimit \<times> gasPrice\<close> written: the proposer is paid in the store, and every account
  under another address, so the sender's and the receiver's whenever they are not the
  proposer's own account, is unmodified in the store.
\<close>

theorem proposer_paid_on_later_failure:
  assumes "so_Nonce (GetAccount s (tx_Sender tx)) = tx_Nonce tx"
    and "tx_Gas tx * tx_GasPrice tx \<le> so_Amount (GetAccount s (tx_Sender tx))"
    and "fst (run env cb tx s blk) = Some e"
  shows "accounts (store_after env cb tx s blk) = (accounts s)(cb \<mapsto> credited s cb tx) \<and>
         so_Amount (GetAccount (store_after env cb tx s blk) cb) =
           so_Amount (GetAccount s cb) + tx_Gas tx * tx_GasPrice tx \<and>
         (\<forall>a. a \<noteq> cb \<longrightarrow>
            GetAccount (store_after env cb tx s blk) a = GetAccount s a)"
proof -
  have g: "GasValue tx \<le> so_Amount (GetAccount s (tx_Sender tx))"
    using assms(2) by (simp add: GasValue_def)
  have acc: "accounts (store_after env cb tx s blk) = (accounts s)(cb \<mapsto> credited s cb tx)"
    using assms(1) g assms(3)
    by (rule_tac run_cases [where s = s and tx = tx and env = env and cb = cb and blk = blk])
       (simp_all add: paths accounts_paid)
  then show ?thesis
    by (simp add: GetAccount_def AddAmount_def GasValue_def)
qed

text \<open>The sender and the recipient are not the proposer; the value transfer fails after the
  purchase of 5 gas at price 1.\<close>

theorem proposer_paid_on_later_failure_witness:
  "so_Nonce (GetAccount (ex_state 100) (tx_Sender (ex_tx 0 addr_B 200 5 []))) =
     tx_Nonce (ex_tx 0 addr_B 200 5 []) \<and>
   tx_Gas (ex_tx 0 addr_B 200 5 []) * tx_GasPrice (ex_tx 0 addr_B 200 5 []) \<le>
     so_Amount (GetAccount (ex_state 100) (tx_Sender (ex_tx 0 addr_B 200 5 []))) \<and>
   fst (run ex_env addr_M (ex_tx 0 addr_B 200 5 []) (ex_state 100) ex_block) =
     Some (ValueFundsError 200 95) \<and>
   so_Amount (GetAccount (store_after ex_env addr_M (ex_tx 0 addr_B 200 5 []) (ex_state 100) ex_block) addr_M) = 5 \<and>
   GetAccount (store_after ex_env addr_M (ex_tx 0 addr_B 200 5 []) (ex_state 100) ex_block) addr_A =
     GetAccount (ex_state 100) addr_A \<and>
   GetAccount (store_after ex_env addr_M (ex_tx 0 addr_B 200 5 []) (ex_state 100) ex_block) addr_B =
     GetAccount (ex_state 100) addr_B"
proof -
  have n: "so_Nonce (GetAccount (ex_state 100) (tx_Sender (ex_tx 0 addr_B 200 5 []))) =
      tx_Nonce (ex_tx 0 addr_B 200 5 [])"
    by (simp add: ex_defs)
  have g: "tx_Gas (ex_tx 0 addr_B 200 5 []) * tx_GasPrice (ex_tx 0 addr_B 200 5 []) \<le>
      so_Amount (GetAccount (ex_state 100) (tx_Sender (ex_tx 0 addr_B 200 5 [])))"
    by (simp add: ex_defs)
  have f: "fst (run ex_env addr_M (ex_tx 0 addr_B 200 5 []) (ex_state 100) ex_block) =
      Some (ValueFundsError 200 95)"
    by (simp add: path_call_value ex_defs)
  have a: "addr_A \<noteq> addr_M" and b: "addr_B \<noteq> addr_M"
    by (simp_all add: addr_A_def addr_B_def addr_M_def)
  from proposer_paid_on_later_failure [OF n g f] a b
  have "so_Amount (GetAccount (store_after ex_env addr_M (ex_tx 0 addr_B 200 5 []) (ex_state 100) ex_block) addr_M) =
      so_Amount (GetAccount (ex_state 100) addr_M) +
      tx_Gas (ex_tx 0 addr_B 200 5 []) * tx_GasPrice (ex_tx 0 addr_B 200 5 [])"
    and "GetAccount (store_after ex_env addr_M (ex_tx 0 addr_B 200 5 []) (ex_state 100) ex_block) addr_A =
      GetAccount (ex_state 100) addr_A"
    and "GetAccount (store_after ex_env addr_M (ex_tx 0 addr_B 200 5 []) (ex_state 100) ex_block) addr_B =
      GetAccount (ex_state 100) addr_B"
    by blast+
  moreover have "so_Amount (GetAccount (ex_state 100) addr_M) +
      tx_Gas (ex_tx 0 addr_B 200 5 []) * tx_GasPrice (ex_tx 0 addr_B 200 5 []) = 5"
    by (simp add: ex_defs)
  ultimately show ?thesis using n g f by simp
qed

text \<open>
  C1 as stated fails when the sender is the proposer: the transaction runs out of gas
  after the purchase, and the store then holds 103 for the sender's address, not the 100
  of before the call.
\<close>

theorem sender_is_proposer_counterexample:
  "fst (run ex_env addr_A (ex_tx 0 addr_B 10 3 []) (ex_state 100) ex_block) = Some OutOfGasError \<and>
   so_Amount (GetAccount (ex_state 100) addr_A) = 100 \<and>
   so_Amount (GetAccount (store_after ex_env addr_A (ex_tx 0 addr_B 10 3 []) (ex_state 100) ex_block) addr_A) = 103"
  by (simp add: path_base_gas ex_defs)

text \<open>
  C2 (as amended). On any failure the accounts of the store are those before the call,
  with the proposer's credited account written exactly when the gas was bought (the nonce
  matched and the sender could pay for the gas): no sender, receiver or new contract
  account is written. The map \<^verbatim>\<open>states\<close> of the store holds the storage of the new contract
  under the creation address, registered by \<^verbatim>\<open>MakeStateObject\<close>, exactly when the transaction
  creates a contract, passed the steps up to the gas charges and was not rejected by the
  instantiation; that entry stays in the store after the failure. Otherwise \<^verbatim>\<open>states\<close> is as
  before the call.
\<close>

theorem failure_writes_exactly_credit_and_registration:
  assumes "fst (run env cb tx s blk) = Some e"
  shows "accounts (store_after env cb tx s blk) =
           (if so_Nonce (GetAccount s (tx_Sender tx)) = tx_Nonce tx \<and>
               GasValue tx \<le> so_Amount (GetAccount s (tx_Sender tx))
            then (accounts s)(cb \<mapsto> credited s cb tx)
            else accounts s) \<and>
         states (store_after env cb tx s blk) =
           (if charged env tx s \<and> CreatesContract tx \<and> \<not> rejects env tx (paid s cb tx)
            then (states s)(CreationAddress env tx \<mapsto> [])
            else states s)"
  using assms
  by (rule_tac run_cases [where s = s and tx = tx and env = env and cb = cb and blk = blk])
     (simp_all add: paths accounts_paid states_paid)

text \<open>A contract creation that fails at the value transfer (the proposer is credited and
  the contract's storage is registered), a transfer that fails there (the proposer is
  credited, \<^verbatim>\<open>states\<close> is untouched) and a nonce mismatch (nothing is written).\<close>

theorem failure_writes_exactly_credit_and_registration_witness:
  "fst (run ex_env addr_M (ex_tx 0 [] 200 10 [1]) (ex_state 100) ex_block) =
     Some (ValueFundsError 200 90) \<and>
   accounts (store_after ex_env addr_M (ex_tx 0 [] 200 10 [1]) (ex_state 100) ex_block) =
     (accounts (ex_state 100))(addr_M \<mapsto> credited (ex_state 100) addr_M (ex_tx 0 [] 200 10 [1])) \<and>
   states (store_after ex_env addr_M (ex_tx 0 [] 200 10 [1]) (ex_state 100) ex_block) =
     (states (ex_state 100))(addr_C \<mapsto> []) \<and>
   fst (run ex_env addr_M (ex_tx 0 addr_B 200 5 []) (ex_state 100) ex_block) =
     Some (ValueFundsError 200 95) \<and>
   accounts (store_after ex_env addr_M (ex_tx 0 addr_B 200 5 []) (ex_state 100) ex_block) =
     (accounts (ex_state 100))(addr_M \<mapsto> credited (ex_state 100) addr_M (ex_tx 0 addr_B 200 5 [])) \<and>
   states (store_after ex_env addr_M (ex_tx 0 addr_B 200 5 []) (ex_state 100) ex_block) =
     states (ex_state 100) \<and>
   fst (run ex_env addr_M (ex_tx 1 addr_B 10 5 []) (ex_state 100) ex_block) =
     Some (NonceError 1 0) \<and>
   accounts (store_after ex_env addr_M (ex_tx 1 addr_B 10 5 []) (ex_state 100) ex_block) =
     accounts (ex_state 100) \<and>
   states (store_after ex_env addr_M (ex_tx 1 addr_B 10 5 []) (ex_state 100) ex_block) =
     states (ex_state 100)"
proof -
  have f1: "fst (run ex_env addr_M (ex_tx 0 [] 200 10 [1]) (ex_state 100) ex_block) =
      Some (ValueFundsError 200 90)"
    by (simp add: path_create_value ex_defs)
  have f2: "fst (run ex_env addr_M (ex_tx 0 addr_B 200 5 []) (ex_state 100) ex_block) =
      Some (ValueFundsError 200 95)"
    by (simp add: path_call_value ex_defs)
  have f3: "fst (run ex_env addr_M (ex_tx 1 addr_B 10 5 []) (ex_state 100) ex_block) =
      Some (NonceError 1 0)"
    by (simp add: path_nonce ex_defs)
  show ?thesis
    using failure_writes_exactly_credit_and_registration [OF f1]
      failure_writes_exactly_credit_and_registration [OF f2]
      failure_writes_exactly_credit_and_registration [OF f3] f1 f2 f3
    by (simp add: ex_defs)
qed

text \<open>
  C2 as stated fails: the contract creation below fails for lack of funds for the value,
  and the store then holds a storage entry for the creation address that it did not
  hold before.
\<close>

theorem contract_registered_counterexample:
  "fst (run ex_env addr_M (ex_tx 0 [] 200 10 [1]) (ex_state 100) ex_block) =
     Some (ValueFundsError 200 90) \<and>
   states (ex_state 100) addr_C = None \<and>
   states (store_after ex_env addr_M (ex_tx 0 [] 200 10 [1]) (ex_state 100) ex_block) addr_C = Some []"
  by (simp add: path_create_value ex_defs)

text \<open>
  C4. When the nonce of the transaction differs from the sender's, the transition fails
  with \<^verbatim>\<open>NonceError(tx.Nonce, sender.Nonce)\<close> (got: the transaction's nonce, expected: the
  sender's), the store is the store before the call, and the sender's account, in the
  store and in the session, is the account before the call: balance, code and nonce.
\<close>

theorem nonce_mismatch_rejected:
  assumes "tx_Nonce tx \<noteq> so_Nonce (GetAccount s (tx_Sender tx))"
  shows "fst (run env cb tx s blk) =
           Some (NonceError (tx_Nonce tx) (so_Nonce (GetAccount s (tx_Sender tx)))) \<and>
         store_after env cb tx s blk = s \<and>
         GetAccount (store_after env cb tx s blk) (tx_Sender tx) = GetAccount s (tx_Sender tx) \<and>
         st_sen (snd (run env cb tx s blk)) = Some (GetAccount s (tx_Sender tx))"
  using assms by (simp add: path_nonce)

theorem nonce_mismatch_rejected_witness:
  "tx_Nonce (ex_tx 1 addr_B 10 5 []) \<noteq>
     so_Nonce (GetAccount (ex_state 100) (tx_Sender (ex_tx 1 addr_B 10 5 []))) \<and>
   fst (run ex_env addr_M (ex_tx 1 addr_B 10 5 []) (ex_state 100) ex_block) =
     Some (NonceError 1 0) \<and>
   store_after ex_env addr_M (ex_tx 1 addr_B 10 5 []) (ex_state 100) ex_block = ex_state 100"
  using nonce_mismatch_rejected [of "ex_tx 1 addr_B 10 5 []" "ex_state 100" ex_env addr_M ex_block]
  by (simp add: ex_defs)

text \<open>
  C5 (as amended). When the sender's balance is less than \<open>gasLimit \<times> gasPrice\<close>, the
  transition fails and the store is the store before the call: the proposer is not
  credited, and the sender's stored balance and nonce are unchanged. The failure is the
  gas-funds error when the nonce of the transaction matches the sender's; otherwise it is
  the nonce error, since the nonce is checked before the gas is bought.
\<close>

theorem underfunded_sender_fails_unchanged:
  assumes "so_Amount (GetAccount s (tx_Sender tx)) < tx_Gas tx * tx_GasPrice tx"
  shows "fst (run env cb tx s blk) =
           (if so_Nonce (GetAccount s (tx_Sender tx)) = tx_Nonce tx
            then Some (GasFundsError (GasValue tx) (tx_Value tx))
            else Some (NonceError (tx_Nonce tx) (so_Nonce (GetAccount s (tx_Sender tx))))) \<and>
         store_after env cb tx s blk = s \<and>
         so_Amount (GetAccount (store_after env cb tx s blk) (tx_Sender tx)) =
           so_Amount (GetAccount s (tx_Sender tx)) \<and>
         so_Nonce (GetAccount (store_after env cb tx s blk) (tx_Sender tx)) =
           so_Nonce (GetAccount s (tx_Sender tx))"
proof (cases "so_Nonce (GetAccount s (tx_Sender tx)) = tx_Nonce tx")
  case True
  with assms show ?thesis by (simp add: path_gas_funds GasValue_def)
next
  case False
  then show ?thesis by (simp add: path_nonce)
qed

text \<open>The scenario of the specification (balance 4, 5 gas at price 1, matching nonce), and
  the same sender with a transaction of nonce 7.\<close>

theorem underfunded_sender_fails_unchanged_witness:
  "so_Amount (GetAccount (ex_state 4) (tx_Sender (ex_tx 0 addr_B 10 5 []))) <
     tx_Gas (ex_tx 0 addr_B 10 5 []) * tx_GasPrice (ex_tx 0 addr_B 10 5 []) \<and>
   fst (run ex_env addr_M (ex_tx 0 addr_B 10 5 []) (ex_state 4) ex_block) =
     Some (GasFundsError 5 10) \<and>
   store_after ex_env addr_M (ex_tx 0 addr_B 10 5 []) (ex_state 4) ex_block = ex_state 4 \<and>
   so_Amount (GetAccount (store_after ex_env addr_M (ex_tx 0 addr_B 10 5 []) (ex_state 4) ex_block)
     addr_A) = 4 \<and>
   so_Nonce (GetAccount (store_after ex_env addr_M (ex_tx 0 addr_B 10 5 []) (ex_state 4) ex_block)
     addr_A) = 0 \<and>
   so_Amount (GetAccount (ex_state 4) (tx_Sender (ex_tx 7 addr_B 10 5 []))) <
     tx_Gas (ex_tx 7 addr_B 10 5 []) * tx_GasPrice (ex_tx 7 addr_B 10 5 []) \<and>
   fst (run ex_env addr_M (ex_tx 7 addr_B 10 5 []) (ex_state 4) ex_block) =
     Some (NonceError 7 0) \<and>
   store_after ex_env addr_M (ex_tx 7 addr_B 10 5 []) (ex_state 4) ex_block = ex_state 4"
  using underfunded_sender_fails_unchanged [of "ex_state 4" "ex_tx 0 addr_B 10 5 []" ex_env addr_M ex_block]
    underfunded_sender_fails_unchanged [of "ex_state 4" "ex_tx 7 addr_B 10 5 []" ex_env addr_M ex_block]
  by (simp add: ex_defs)

text \<open>
  C5 as stated fails when the nonce does not match: the sender below holds 4 and cannot
  pay for 5 gas at price 1, and the transaction of nonce 1 fails with the nonce error, not
  with the gas-funds error.
\<close>

theorem underfunded_nonce_mismatch_counterexample:
  "so_Amount (GetAccount (ex_state 4) (tx_Sender (ex_tx 1 addr_B 10 5 []))) <
     tx_Gas (ex_tx 1 addr_B 10 5 []) * tx_GasPrice (ex_tx 1 addr_B 10 5 []) \<and>
   fst (run ex_env addr_M (ex_tx 1 addr_B 10 5 []) (ex_state 4) ex_block) =
     Some (NonceError 1 0) \<and>
   fst (run ex_env addr_M (ex_tx 1 addr_B 10 5 []) (ex_state 4) ex_block) \<noteq>
     Some (GasFundsError (GasValue (ex_tx 1 addr_B 10 5 [])) (tx_Value (ex_tx 1 addr_B 10 5 [])))"
  by (simp add: path_nonce ex_defs)

text \<open>
  C3 (as amended). After every successful run the sender's object, as the commit writes
  it, has the balance \<open>initial - gasLimit \<times> gasPrice - value\<close>, which is not negative; and
  when the receiver's address (the recipient, or the creation address) is not the
  sender's, this is the balance the store holds for the sender.
\<close>

theorem sender_balance_after_success:
  assumes "fst (run env cb tx s blk) = None"
  shows "map_option so_Amount (st_sen (snd (run env cb tx s blk))) =
           Some (so_Amount (GetAccount s (tx_Sender tx)) - tx_Gas tx * tx_GasPrice tx - tx_Value tx) \<and>
         0 \<le> so_Amount (GetAccount s (tx_Sender tx)) - tx_Gas tx * tx_GasPrice tx - tx_Value tx \<and>
         (receiver_address env tx \<noteq> tx_Sender tx \<longrightarrow>
            so_Amount (GetAccount (store_after env cb tx s blk) (tx_Sender tx)) =
              so_Amount (GetAccount s (tx_Sender tx)) - tx_Gas tx * tx_GasPrice tx - tx_Value tx)"
proof -
  have "map_option so_Amount (st_sen (snd (run env cb tx s blk))) =
           Some (so_Amount (GetAccount s (tx_Sender tx)) - GasValue tx - tx_Value tx) \<and>
         0 \<le> so_Amount (GetAccount s (tx_Sender tx)) - GasValue tx - tx_Value tx \<and>
         (receiver_address env tx \<noteq> tx_Sender tx \<longrightarrow>
            so_Amount (GetAccount (store_after env cb tx s blk) (tx_Sender tx)) =
              so_Amount (GetAccount s (tx_Sender tx)) - GasValue tx - tx_Value tx)"
    using assms
    by (rule_tac run_cases [where s = s and tx = tx and env = env and cb = cb and blk = blk])
       (simp_all add: paths GetAccount_update AddAmount_def)
  then show ?thesis by (simp add: GasValue_def)
qed

text \<open>The scenario of the specification: balance 100, value 10, 5 gas at price 1; the
  sender ends with 85.\<close>

theorem sender_balance_after_success_witness:
  "fst (run ex_env addr_M (ex_tx 0 addr_B 10 5 []) (ex_state 100) ex_block) = None \<and>
   receiver_address ex_env (ex_tx 0 addr_B 10 5 []) \<noteq> tx_Sender (ex_tx 0 addr_B 10 5 []) \<and>
   map_option so_Amount (st_sen (snd (run ex_env addr_M (ex_tx 0 addr_B 10 5 []) (ex_state 100) ex_block))) =
     Some 85 \<and>
   so_Amount (GetAccount (store_after ex_env addr_M (ex_tx 0 addr_B 10 5 []) (ex_state 100) ex_block)
     (tx_Sender (ex_tx 0 addr_B 10 5 []))) = 85"
proof -
  have f: "fst (run ex_env addr_M (ex_tx 0 addr_B 10 5 []) (ex_state 100) ex_block) = None"
    by (simp add: path_call_ok ex_defs)
  have r: "receiver_address ex_env (ex_tx 0 addr_B 10 5 []) \<noteq> tx_Sender (ex_tx 0 addr_B 10 5 [])"
    by (simp add: ex_defs)
  have v: "so_Amount (GetAccount (ex_state 100) (tx_Sender (ex_tx 0 addr_B 10 5 []))) -
      tx_Gas (ex_tx 0 addr_B 10 5 []) * tx_GasPrice (ex_tx 0 addr_B 10 5 []) -
      tx_Value (ex_tx 0 addr_B 10 5 []) = 85"
    by (simp add: ex_defs)
  from sender_balance_after_success [OF f] r f show ?thesis
    unfolding v by blast
qed

text \<open>
  C3 as stated fails for a transfer to the sender's own address: the receiver's object is
  fetched from the store on its own and written last, so after the successful run the
  store holds 110 for the sender, not \<open>100 - 5 - 10 = 85\<close>.
\<close>

theorem self_transfer_counterexample:
  "fst (run ex_env addr_M (ex_tx 0 addr_A 10 5 []) (ex_state 100) ex_block) = None \<and>
   so_Amount (GetAccount (ex_state 100) addr_A) -
     tx_Gas (ex_tx 0 addr_A 10 5 []) * tx_GasPrice (ex_tx 0 addr_A 10 5 []) -
     tx_Value (ex_tx 0 addr_A 10 5 []) = 85 \<and>
   so_Amount (GetAccount (store_after ex_env addr_M (ex_tx 0 addr_A 10 5 []) (ex_state 100) ex_block)
     addr_A) = 110"
  by (simp add: path_call_ok ex_defs)

text \<open>
  C6. A \<^verbatim>\<open>UseGas\<close> of more than the counter fails with \<^verbatim>\<open>OutOfGasError\<close> and leaves the session,
  so the counter, as it was; a \<^verbatim>\<open>UseGas\<close> that succeeds leaves a counter that is not
  negative; in a successful transition the two charges together do not exceed the gas
  limit bought and the counter ends at the non-negative difference; and for a gas limit
  that is not negative the counter is not negative at the end of any run.
\<close>

theorem gas_counter_never_negative:
  "(st_gas self1 < amount1 \<longrightarrow> UseGas amount1 self1 = (Some OutOfGasError, self1)) \<and>
   (fst (UseGas amount2 self2) = None \<longrightarrow>
      st_gas (snd (UseGas amount2 self2)) = st_gas self2 - amount2 \<and>
      0 \<le> st_gas (snd (UseGas amount2 self2))) \<and>
   (fst (run env cb tx s blk) = None \<longrightarrow>
      GasTx env + dataPrice env tx \<le> tx_Gas tx \<and>
      st_gas (snd (run env cb tx s blk)) = tx_Gas tx - (GasTx env + dataPrice env tx) \<and>
      0 \<le> st_gas (snd (run env cb tx s blk))) \<and>
   (0 \<le> tx_Gas tx \<longrightarrow> 0 \<le> st_gas (snd (run env cb tx s blk)))"
proof -
  have a: "st_gas self1 < amount1 \<longrightarrow> UseGas amount1 self1 = (Some OutOfGasError, self1)"
    by (simp add: UseGas_def)
  have b: "fst (UseGas amount2 self2) = None \<longrightarrow>
      st_gas (snd (UseGas amount2 self2)) = st_gas self2 - amount2 \<and>
      0 \<le> st_gas (snd (UseGas amount2 self2))"
    by (simp add: UseGas_def)
  have c: "fst (run env cb tx s blk) = None \<longrightarrow>
      GasTx env + dataPrice env tx \<le> tx_Gas tx \<and>
      st_gas (snd (run env cb tx s blk)) = tx_Gas tx - (GasTx env + dataPrice env tx) \<and>
      0 \<le> st_gas (snd (run env cb tx s blk))"
    by (rule_tac run_cases [where s = s and tx = tx and env = env and cb = cb and blk = blk])
       (simp_all add: paths)
  have d: "0 \<le> tx_Gas tx \<longrightarrow> 0 \<le> st_gas (snd (run env cb tx s blk))"
    by (rule_tac run_cases [where s = s and tx = tx and env = env and cb = cb and blk = blk])
       (simp_all add: paths)
  from a b c d show ?thesis by blast
qed

theorem gas_counter_never_negative_witness:
  "st_gas (NewStateTransition addr_M (ex_tx 0 addr_B 10 7 [1]) (ex_state 100) ex_block) < 5 \<and>
   UseGas 5 (NewStateTransition addr_M (ex_tx 0 addr_B 10 7 [1]) (ex_state 100) ex_block) =
     (Some OutOfGasError, NewStateTransition addr_M (ex_tx 0 addr_B 10 7 [1]) (ex_state 100) ex_block) \<and>
   fst (UseGas 4 ((NewStateTransition addr_M (ex_tx 0 addr_B 10 7 [1]) (ex_state 100) ex_block)\<lparr>st_gas := 9\<rparr>)) = None \<and>
   st_gas (snd (UseGas 4 ((NewStateTransition addr_M (ex_tx 0 addr_B 10 7 [1]) (ex_state 100) ex_block)\<lparr>st_gas := 9\<rparr>))) = 5 \<and>
   fst (run ex_env addr_M (ex_tx 0 addr_B 10 7 [1]) (ex_state 100) ex_block) = None \<and>
   0 \<le> tx_Gas (ex_tx 0 addr_B 10 7 [1]) \<and>
   GasTx ex_env + dataPrice ex_env (ex_tx 0 addr_B 10 7 [1]) \<le> tx_Gas (ex_tx 0 addr_B 10 7 [1]) \<and>
   st_gas (snd (run ex_env addr_M (ex_tx 0 addr_B 10 7 [1]) (ex_state 100) ex_block)) = 1"
proof -
  have l: "st_gas (NewStateTransition addr_M (ex_tx 0 addr_B 10 7 [1]) (ex_state 100) ex_block) < 5"
    by (simp add: NewStateTransition_def)
  have u: "fst (UseGas 4 ((NewStateTransition addr_M (ex_tx 0 addr_B 10 7 [1]) (ex_state 100) ex_block)\<lparr>st_gas := 9\<rparr>)) = None"
    by (simp add: UseGas_def)
  have f: "fst (run ex_env addr_M (ex_tx 0 addr_B 10 7 [1]) (ex_state 100) ex_block) = None"
    by (simp add: path_call_ok ex_defs)
  have g: "0 \<le> tx_Gas (ex_tx 0 addr_B 10 7 [1])"
    by (simp add: ex_tx_def)
  have v: "tx_Gas (ex_tx 0 addr_B 10 7 [1]) -
      (GasTx ex_env + dataPrice ex_env (ex_tx 0 addr_B 10 7 [1])) = 1"
    and w: "st_gas ((NewStateTransition addr_M (ex_tx 0 addr_B 10 7 [1]) (ex_state 100) ex_block)\<lparr>st_gas := 9\<rparr>) - 4 = 5"
    by (simp_all add: ex_tx_def ex_env_def)
  note t = gas_counter_never_negative
    [of "NewStateTransition addr_M (ex_tx 0 addr_B 10 7 [1]) (ex_state 100) ex_block" 5 4
        "(NewStateTransition addr_M (ex_tx 0 addr_B 10 7 [1]) (ex_state 100) ex_block)\<lparr>st_gas := 9\<rparr>"
        ex_env addr_M "ex_tx 0 addr_B 10 7 [1]" "ex_state 100" ex_block, unfolded v w]
  from t l have c1: "UseGas 5 (NewStateTransition addr_M (ex_tx 0 addr_B 10 7 [1]) (ex_state 100) ex_block) =
     (Some OutOfGasError, NewStateTransition addr_M (ex_tx 0 addr_B 10 7 [1]) (ex_state 100) ex_block)"
    by simp
  from t u have c2: "st_gas (snd (UseGas 4 ((NewStateTransition addr_M (ex_tx 0 addr_B 10 7 [1]) (ex_state 100) ex_block)\<lparr>st_gas := 9\<rparr>))) = 5"
    by simp
  from t f have c3: "GasTx ex_env + dataPrice ex_env (ex_tx 0 addr_B 10 7 [1]) \<le> tx_Gas (ex_tx 0 addr_B 10 7 [1])"
    and c4: "st_gas (snd (run ex_env addr_M (ex_tx 0 addr_B 10 7 [1]) (ex_state 100) ex_block)) = 1"
    by simp_all
  from l c1 u c2 f g c3 c4 show ?thesis by (intro conjI)
qed

text \<open>
  C7. Once the gas is bought (the nonce matches and the sender can pay for the gas), the
  transition fails with \<^verbatim>\<open>OutOfGasError\<close> exactly when the gas limit is below the base cost
  \<^verbatim>\<open>GasTx\<close> or, the base cost taken, what is left is below the data charge
  \<open>len(tx.Data) \<times> GasData\<close>. The counter the call leaves shows the order: the gas limit
  when the base charge fails, the gas limit less the base cost when the data charge fails,
  and the gas limit less both charges otherwise.
\<close>

theorem gas_charges_in_order:
  assumes "so_Nonce (GetAccount s (tx_Sender tx)) = tx_Nonce tx"
    and "tx_Gas tx * tx_GasPrice tx \<le> so_Amount (GetAccount s (tx_Sender tx))"
  shows "(fst (run env cb tx s blk) = Some OutOfGasError) =
           (tx_Gas tx < GasTx env \<or> tx_Gas tx - GasTx env < dataPrice env tx) \<and>
         st_gas (snd (run env cb tx s blk)) =
           (if tx_Gas tx < GasTx env then tx_Gas tx
            else if tx_Gas tx - GasTx env < dataPrice env tx then tx_Gas tx - GasTx env
            else tx_Gas tx - GasTx env - dataPrice env tx)"
proof -
  have g: "GasValue tx \<le> so_Amount (GetAccount s (tx_Sender tx))"
    using assms(2) by (simp add: GasValue_def)
  show ?thesis
    using assms(1) g
    by (rule_tac run_cases [where s = s and tx = tx and env = env and cb = cb and blk = blk])
       (simp_all add: paths)
qed

text \<open>With base cost 5 and a payload of two bytes at cost 1: a gas limit of 3 fails at the
  base charge, one of 6 at the data charge, and one of 8 passes both.\<close>

theorem gas_charges_in_order_witness:
  "so_Nonce (GetAccount (ex_state 100) (tx_Sender (ex_tx 0 addr_B 10 3 [1, 2]))) =
     tx_Nonce (ex_tx 0 addr_B 10 3 [1, 2]) \<and>
   tx_Gas (ex_tx 0 addr_B 10 3 [1, 2]) * tx_GasPrice (ex_tx 0 addr_B 10 3 [1, 2]) \<le>
     so_Amount (GetAccount (ex_state 100) (tx_Sender (ex_tx 0 addr_B 10 3 [1, 2]))) \<and>
   fst (run ex_env addr_M (ex_tx 0 addr_B 10 3 [1, 2]) (ex_state 100) ex_block) =
     Some OutOfGasError \<and>
   st_gas (snd (run ex_env addr_M (ex_tx 0 addr_B 10 3 [1, 2]) (ex_state 100) ex_block)) = 3 \<and>
   so_Nonce (GetAccount (ex_state 100) (tx_Sender (ex_tx 0 addr_B 10 6 [1, 2]))) =
     tx_Nonce (ex_tx 0 addr_B 10 6 [1, 2]) \<and>
   tx_Gas (ex_tx 0 addr_B 10 6 [1, 2]) * tx_GasPrice (ex_tx 0 addr_B 10 6 [1, 2]) \<le>
     so_Amount (GetAccount (ex_state 100) (tx_Sender (ex_tx 0 addr_B 10 6 [1, 2]))) \<and>
   fst (run ex_env addr_M (ex_tx 0 addr_B 10 6 [1, 2]) (ex_state 100) ex_block) =
     Some OutOfGasError \<and>
   st_gas (snd (run ex_env addr_M (ex_tx 0 addr_B 10 6 [1, 2]) (ex_state 100) ex_block)) = 1 \<and>
   so_Nonce (GetAccount (ex_state 100) (tx_Sender (ex_tx 0 addr_B 10 8 [1, 2]))) =
     tx_Nonce (ex_tx 0 addr_B 10 8 [1, 2]) \<and>
   tx_Gas (ex_tx 0 addr_B 10 8 [1, 2]) * tx_GasPrice (ex_tx 0 addr_B 10 8 [1, 2]) \<le>
     so_Amount (GetAccount (ex_state 100) (tx_Sender (ex_tx 0 addr_B 10 8 [1, 2]))) \<and>
   fst (run ex_env addr_M (ex_tx 0 addr_B 10 8 [1, 2]) (ex_state 100) ex_block) \<noteq>
     Some OutOfGasError \<and>
   st_gas (snd (run ex_env addr_M (ex_tx 0 addr_B 10 8 [1, 2]) (ex_state 100) ex_block)) = 1"
  using gas_charges_in_order [of "ex_state 100" "ex_tx 0 addr_B 10 3 [1, 2]" ex_env addr_M ex_block]
    gas_charges_in_order [of "ex_state 100" "ex_tx 0 addr_B 10 6 [1, 2]" ex_env addr_M ex_block]
    gas_charges_in_order [of "ex_state 100" "ex_tx 0 addr_B 10 8 [1, 2]" ex_env addr_M ex_block]
  by (simp add: ex_defs)

text \<open>
  C8. For a contract creation that passes the steps up to the gas charges, is not
  rejected by the instantiation, can pay the value and has addresses of four bytes or
  more, the outcome is the script engine's: when the engine, run on the payload with the
  new contract (holding the transferred value) as context, returns a script and no error,
  the transition succeeds and the store holds under the creation address the new
  account, with that script as code and the transferred value as balance; when the engine
  reports an error, the transition fails with the initialization error of that cause.
\<close>

theorem contract_creation:
  assumes "CreatesContract tx" and "charged env tx s"
    and "\<not> rejects env tx (paid s cb tx)"
    and "tx_Value tx \<le> so_Amount (GetAccount s (tx_Sender tx)) - GasValue tx"
    and "4 \<le> length (tx_Sender tx)" and "4 \<le> length (CreationAddress env tx)"
  shows "(case init_run env cb tx s blk of
            (code, None) \<Rightarrow>
              fst (run env cb tx s blk) = None \<and>
              GetAccount (store_after env cb tx s blk) (CreationAddress env tx) =
                (contract_funded env tx)\<lparr>so_script := code\<rparr> \<and>
              so_script (GetAccount (store_after env cb tx s blk) (CreationAddress env tx)) = code \<and>
              so_Amount (GetAccount (store_after env cb tx s blk) (CreationAddress env tx)) =
                tx_Value tx
          | (code, Some e) \<Rightarrow> fst (run env cb tx s blk) = Some (InitRunError e))"
proof (cases "init_run env cb tx s blk")
  case (Pair code err)
  show ?thesis
  proof (cases err)
    case None
    with Pair have "snd (init_run env cb tx s blk) = None" and "fst (init_run env cb tx s blk) = code"
      by simp_all
    with assms Pair None show ?thesis
      by (simp add: path_create_ok GetAccount_update)
  next
    case (Some e)
    with Pair have "snd (init_run env cb tx s blk) = Some e"
      by simp
    with assms Pair Some show ?thesis
      by (simp add: path_create_init_failed)
  qed
qed

text \<open>A creation with a payload, on which the engine of the examples succeeds, and one
  with an empty payload, on which it fails.\<close>

theorem contract_creation_witness:
  "CreatesContract (ex_tx 0 [] 10 10 [96]) \<and>
   charged ex_env (ex_tx 0 [] 10 10 [96]) (ex_state 100) \<and>
   \<not> rejects ex_env (ex_tx 0 [] 10 10 [96]) (paid (ex_state 100) addr_M (ex_tx 0 [] 10 10 [96])) \<and>
   tx_Value (ex_tx 0 [] 10 10 [96]) \<le>
     so_Amount (GetAccount (ex_state 100) (tx_Sender (ex_tx 0 [] 10 10 [96]))) -
     GasValue (ex_tx 0 [] 10 10 [96]) \<and>
   4 \<le> length (tx_Sender (ex_tx 0 [] 10 10 [96])) \<and>
   4 \<le> length (CreationAddress ex_env (ex_tx 0 [] 10 10 [96])) \<and>
   init_run ex_env addr_M (ex_tx 0 [] 10 10 [96]) (ex_state 100) ex_block = ([96], None) \<and>
   fst (run ex_env addr_M (ex_tx 0 [] 10 10 [96]) (ex_state 100) ex_block) = None \<and>
   so_script (GetAccount (store_after ex_env addr_M (ex_tx 0 [] 10 10 [96]) (ex_state 100) ex_block)
     addr_C) = [96] \<and>
   so_Amount (GetAccount (store_after ex_env addr_M (ex_tx 0 [] 10 10 [96]) (ex_state 100) ex_block)
     addr_C) = 10 \<and>
   CreatesContract (ex_tx 0 [] 10 10 []) \<and>
   charged ex_env (ex_tx 0 [] 10 10 []) (ex_state 100) \<and>
   \<not> rejects ex_env (ex_tx 0 [] 10 10 []) (paid (ex_state 100) addr_M (ex_tx 0 [] 10 10 [])) \<and>
   tx_Value (ex_tx 0 [] 10 10 []) \<le>
     so_Amount (GetAccount (ex_state 100) (tx_Sender (ex_tx 0 [] 10 10 []))) -
     GasValue (ex_tx 0 [] 10 10 []) \<and>
   4 \<le> length (tx_Sender (ex_tx 0 [] 10 10 [])) \<and>
   4 \<le> length (CreationAddress ex_env (ex_tx 0 [] 10 10 [])) \<and>
   init_run ex_env addr_M (ex_tx 0 [] 10 10 []) (ex_state 100) ex_block = ([], Some ''bad'') \<and>
   fst (run ex_env addr_M (ex_tx 0 [] 10 10 []) (ex_state 100) ex_block) =
     Some (InitRunError ''bad'')"
  using contract_creation [where tx = "ex_tx 0 [] 10 10 [96]" and env = ex_env and s = "ex_state 100"
      and cb = addr_M and blk = ex_block]
    contract_creation [where tx = "ex_tx 0 [] 10 10 []" and env = ex_env and s = "ex_state 100"
      and cb = addr_M and blk = ex_block]
  by (simp add: ex_defs)




section \<open>Reading a message\<close>

lemma byte_bound: "unat (x :: byte) < 256"
  using unsigned_less [of x, where 'a = nat] by simp

lemma BytesToNumber_4:
  assumes "length b = 4"
  shows "unat (BytesToNumber b) < 2 ^ 32"
proof -
  from assms obtain w x y z where b: "b = [w, x, y, z]"
    by (auto simp add: length_Suc_conv numeral_eq_Suc)
  let ?n = "((unat w * 256 + unat x) * 256 + unat y) * 256 + unat z"
  have "BytesToNumber b = of_nat ?n"
    by (simp add: b BytesToNumber_def)
  then have "unat (BytesToNumber b) = ?n mod 2 ^ 64"
    by (simp only: unat_of_nat) simp
  moreover have "?n < 2 ^ 32"
    using byte_bound [of w] byte_bound [of x] byte_bound [of y] byte_bound [of z] by simp
  ultimately show ?thesis by simp
qed

text \<open>Whenever the declared length exceeds what follows the header, \<^verbatim>\<open>ReadMessage\<close> panics
  at \<^verbatim>\<open>data[8+messageLength:]\<close>, before the comparison of the lengths.\<close>

lemma ReadMessage_declared_length_too_long:
  assumes "8 < length data" and "take 4 data = MagicToken"
    and "length (drop 8 data) < unat (BytesToNumber (take 4 (drop 4 data)))"
  shows "ReadMessage dec data = Inl SliceBoundsOutOfRange"
proof -
  let ?ml = "BytesToNumber (take 4 (drop 4 data))"
  have "length (take 4 (drop 4 data)) = 4"
    using assms(1) by simp
  then have "unat ?ml < 2 ^ 32"
    by (rule BytesToNumber_4)
  then have "unat (8 + ?ml) = 8 + unat ?ml"
    by (simp add: unat_add_lem [THEN iffD1])
  with assms(3) have "length data < unat (8 + ?ml)"
    by simp
  with assms(1,2) show ?thesis
    by (auto simp add: ReadMessage_def Let_def)
qed

text \<open>A well-formed message of one byte, followed by one more byte, is read.\<close>

lemma ReadMessage_example:
  "ReadMessage ex_decoder (MagicToken @ [0, 0, 0, 1, 7, 9]) =
     Inr (Some \<lparr>msg_Type = 7, msg_Data = []\<rparr>, [9], False, None)"
  by (simp add: ReadMessage_def MagicToken_def BytesToNumber_def ex_decoder_def)

lemma readMessage_example:
  "readMessage ex_decoder (MagicToken @ [0, 0, 0, 5, 1]) = Inl SliceBoundsOutOfRange"
  by (simp add: readMessage_def MagicToken_def BytesToNumber_def)

text \<open>
  C10. The claim is that \<^verbatim>\<open>ReadMessage\<close> returns the message-length error when the declared
  length exceeds the bytes after the header. On nine bytes, the magic token, the declared
  length 5 and one byte of payload, the code does not return: \<^verbatim>\<open>data[8+messageLength:]\<close>,
  that is \<^verbatim>\<open>data[13:]\<close> of nine bytes, panics before the lengths are compared.
\<close>

theorem ReadMessage_faults_on_declared_length:
  "ReadMessage ex_decoder (MagicToken @ [0, 0, 0, 5, 1]) = Inl SliceBoundsOutOfRange"
  by (simp add: ReadMessage_def MagicToken_def BytesToNumber_def)

end
